theory Spec2Isabelle
  imports Main
begin

section \<open>MongoAlchemy update expressions: the data model\<close>

text \<open>
  The builder of \<^verbatim>\<open>mongoalchemy/update_expression.py\<close> keeps a dictionary
  \<^verbatim>\<open>update_data\<close> from modifier names to dictionaries from field names to
  values, and two private flags. Every method mutates the builder in place and returns it,
  or raises. A raise does not roll back what the method already wrote, so each method is a
  function from the builder to an outcome that carries the builder as the call left it.
\<close>

text \<open>The Python values that the builder stores or passes around.\<close>

datatype pyval =
    PyNone
  | PyBool bool
  | PyInt int
  | PyStr string
  | PyList "pyval list"
  | PyTuple "pyval list"

text \<open>
  Exceptions raised by the collaborators of the builder (the \<^verbatim>\<open>wrap\<close> methods of
  the field types), which the builder lets through.
\<close>

datatype foreign_exception =
    BadValueException string
  | AttributeError string

text \<open>
  What a call on the builder can raise: the two exception classes of the module with their
  message, a \<^verbatim>\<open>KeyError\<close> of a dictionary lookup, or an exception of a collaborator.
\<close>

datatype error =
    InvalidModifierException string
  | ConflictingModifierException string
  | KeyError string
  | Propagated foreign_exception

text \<open>
  The field type as the builder uses it: the name of its class, its
  \<^verbatim>\<open>valid_modifiers\<close>, and the three encoders the builder calls:
  \<^verbatim>\<open>get_type().wrap\<close>, \<^verbatim>\<open>get_type().child_type().wrap\<close> and
  \<^verbatim>\<open>get_type().item_type.wrap\<close>. The field module is not part of the file;
  the encoders are parameters, and an encoder may raise.
\<close>

record field_type =
  class_name :: string
  valid_modifiers :: "string set"
  wrap :: "pyval \<Rightarrow> foreign_exception + pyval"
  child_type_wrap :: "pyval \<Rightarrow> foreign_exception + pyval"
  item_type_wrap :: "pyval \<Rightarrow> foreign_exception + pyval"

record qfield =
  get_name :: string
  get_type :: field_type

text \<open>The query of the builder: the builder reads its \<^verbatim>\<open>session\<close> only.\<close>

record 's query_expression =
  query_session :: 's

type_synonym update_dict = "string \<rightharpoonup> (string \<rightharpoonup> pyval)"

record 's update_expression =
  query :: "'s query_expression"
  session :: 's
  update_data :: update_dict
  upsert_flag :: bool
  multi_flag :: bool

datatype 's outcome =
    Returned "'s update_expression"
  | Raised error "'s update_expression"

text \<open>The builder as a call left it, whether the call returned or raised.\<close>

fun builder_after :: "'s outcome \<Rightarrow> 's update_expression" where
  "builder_after (Returned self) = self"
| "builder_after (Raised e self) = self"

section \<open>The methods\<close>

text \<open>\<^verbatim>\<open>UpdateExpression.__init__\<close>\<close>

definition init :: "'s query_expression \<Rightarrow> 's update_expression" where
  "init q = \<lparr> query = q, session = query_session q, update_data = Map.empty,
              upsert_flag = False, multi_flag = False \<rparr>"

definition upsert :: "'s update_expression \<Rightarrow> 's update_expression" where
  "upsert self = self\<lparr> upsert_flag := True \<rparr>"

definition multi :: "'s update_expression \<Rightarrow> 's update_expression" where
  "multi self = self\<lparr> multi_flag := True \<rparr>"

definition get_upsert :: "'s update_expression \<Rightarrow> bool" where
  "get_upsert self = upsert_flag self"

definition get_multi :: "'s update_expression \<Rightarrow> bool" where
  "get_multi self = multi_flag self"

text \<open>
  The message of \<^verbatim>\<open>InvalidModifierException(field, op)\<close>:
  \<^verbatim>\<open>'Invalid modifier for %s field: %s' % (field.__class__.__name__, op)\<close>.
\<close>

definition invalid_modifier :: "field_type \<Rightarrow> string \<Rightarrow> error" where
  "invalid_modifier field op =
     InvalidModifierException (''Invalid modifier for '' @ class_name field @ '' field: '' @ op)"

text \<open>
  \<^verbatim>\<open>if op not in self.update_data: self.update_data[op] = {}\<close>, the two lines
  that all four private methods share.
\<close>

definition ensure_modifier :: "string \<Rightarrow> 's update_expression \<Rightarrow> 's update_expression" where
  "ensure_modifier op self =
     (if op \<notin> dom (update_data self)
      then self\<lparr> update_data := (update_data self)(op \<mapsto> Map.empty) \<rparr>
      else self)"

text \<open>
  \<^verbatim>\<open>self.update_data[op][name] = value\<close>, with the right-hand side already
  evaluated: the lookup of \<^verbatim>\<open>op\<close> raises \<^verbatim>\<open>KeyError\<close> when it is absent.
\<close>

definition store :: "string \<Rightarrow> string \<Rightarrow> pyval \<Rightarrow> 's update_expression \<Rightarrow> 's outcome" where
  "store op name v self =
     (case update_data self op of
        None \<Rightarrow> Raised (KeyError op) self
      | Some entries \<Rightarrow>
          Returned (self\<lparr> update_data := (update_data self)(op \<mapsto> entries(name \<mapsto> v)) \<rparr>))"

text \<open>
  The loop of \<^verbatim>\<open>_atomic_list_op_multivalue\<close>: every value goes through the
  encoder of the item type, in order, and the first raise ends the loop.
\<close>

fun wrap_each ::
  "(pyval \<Rightarrow> foreign_exception + pyval) \<Rightarrow> pyval list \<Rightarrow> pyval list \<Rightarrow> foreign_exception + pyval list"
where
  "wrap_each w [] wrapped = Inr wrapped"
| "wrap_each w (v # vs) wrapped =
     (case w v of
        Inl e \<Rightarrow> Inl e
      | Inr x \<Rightarrow> wrap_each w vs (wrapped @ [x]))"

text \<open>
  \<^verbatim>\<open>_atomic_list_op_multivalue\<close>: the list \<^verbatim>\<open>wrapped\<close> is built and
  then dropped; what is stored is \<^verbatim>\<open>value\<close>, the tuple of the arguments.
\<close>

definition atomic_list_op_multivalue ::
  "string \<Rightarrow> qfield \<Rightarrow> pyval list \<Rightarrow> 's update_expression \<Rightarrow> 's outcome" where
  "atomic_list_op_multivalue op qf value self =
     (if op \<notin> valid_modifiers (get_type qf)
      then Raised (invalid_modifier (get_type qf) op) self
      else
        (case wrap_each (item_type_wrap (get_type qf)) value [] of
           Inl e \<Rightarrow> Raised (Propagated e) self
         | Inr wrapped \<Rightarrow> store op (get_name qf) (PyTuple value) (ensure_modifier op self)))"

definition atomic_list_op ::
  "string \<Rightarrow> qfield \<Rightarrow> pyval \<Rightarrow> 's update_expression \<Rightarrow> 's outcome" where
  "atomic_list_op op qf value self =
     (if op \<notin> valid_modifiers (get_type qf)
      then Raised (invalid_modifier (get_type qf) op) self
      else
        (let self1 = ensure_modifier op self in
         case child_type_wrap (get_type qf) value of
           Inl e \<Rightarrow> Raised (Propagated e) self1
         | Inr w \<Rightarrow> store op (get_name qf) w self1))"

definition atomic_op ::
  "string \<Rightarrow> qfield \<Rightarrow> pyval \<Rightarrow> 's update_expression \<Rightarrow> 's outcome" where
  "atomic_op op qf value self =
     (if op \<notin> valid_modifiers (get_type qf)
      then Raised (invalid_modifier (get_type qf) op) self
      else
        (let self1 = ensure_modifier op self in
         case wrap (get_type qf) value of
           Inl e \<Rightarrow> Raised (Propagated e) self1
         | Inr w \<Rightarrow> store op (get_name qf) w self1))"

definition atomic_generic_op ::
  "string \<Rightarrow> qfield \<Rightarrow> pyval \<Rightarrow> 's update_expression \<Rightarrow> 's outcome" where
  "atomic_generic_op op qf value self =
     (if op \<notin> valid_modifiers (get_type qf)
      then Raised (invalid_modifier (get_type qf) op) self
      else store op (get_name qf) value (ensure_modifier op self))"

text \<open>The public methods. \<^verbatim>\<open>set\<close>, \<^verbatim>\<open>inc\<close>, \<^verbatim>\<open>append\<close>, \<^verbatim>\<open>extend\<close> and
  \<^verbatim>\<open>remove\<close> carry a suffix, their names being taken.\<close>

definition set_ue :: "qfield \<Rightarrow> pyval \<Rightarrow> 's update_expression \<Rightarrow> 's outcome" where
  "set_ue qf value self = atomic_op ''$set'' qf value self"

definition unset :: "qfield \<Rightarrow> 's update_expression \<Rightarrow> 's outcome" where
  "unset qf self = atomic_generic_op ''$unset'' qf (PyBool True) self"

definition inc_ue :: "qfield \<Rightarrow> pyval \<Rightarrow> 's update_expression \<Rightarrow> 's outcome" where
  "inc_ue qf value self = atomic_op ''$inc'' qf value self"

text \<open>\<^verbatim>\<open>inc(qfield)\<close>, with the default \<^verbatim>\<open>value=1\<close>.\<close>

definition inc_default :: "qfield \<Rightarrow> 's update_expression \<Rightarrow> 's outcome" where
  "inc_default qf self = inc_ue qf (PyInt 1) self"

definition append_ue :: "qfield \<Rightarrow> pyval \<Rightarrow> 's update_expression \<Rightarrow> 's outcome" where
  "append_ue qf value self = atomic_list_op ''$push'' qf value self"

definition extend_ue :: "qfield \<Rightarrow> pyval list \<Rightarrow> 's update_expression \<Rightarrow> 's outcome" where
  "extend_ue qf value self = atomic_list_op_multivalue ''$pushAll'' qf value self"

definition remove_ue :: "qfield \<Rightarrow> pyval \<Rightarrow> 's update_expression \<Rightarrow> 's outcome" where
  "remove_ue qf value self = atomic_list_op ''$pull'' qf value self"

definition remove_all :: "qfield \<Rightarrow> pyval list \<Rightarrow> 's update_expression \<Rightarrow> 's outcome" where
  "remove_all qf value self = atomic_list_op_multivalue ''$pullAll'' qf value self"

definition add_to_set :: "qfield \<Rightarrow> pyval \<Rightarrow> 's update_expression \<Rightarrow> 's outcome" where
  "add_to_set qf value self = atomic_list_op ''$addToSet'' qf value self"

definition pop_last :: "qfield \<Rightarrow> 's update_expression \<Rightarrow> 's outcome" where
  "pop_last qf self = atomic_generic_op ''$pop'' qf (PyInt 1) self"

definition pop_first :: "qfield \<Rightarrow> 's update_expression \<Rightarrow> 's outcome" where
  "pop_first qf self = atomic_generic_op ''$pop'' qf (PyInt (- 1)) self"

text \<open>
  \<^verbatim>\<open>execute\<close> passes the builder to \<^verbatim>\<open>session.execute_update\<close>, which is not
  part of the file: it is the parameter \<open>execute_update\<close>, the session after it has
  received the builder. The method writes no attribute of the builder.
\<close>

definition execute ::
  "('s \<Rightarrow> 's update_expression \<Rightarrow> 's) \<Rightarrow> 's update_expression \<Rightarrow> 's update_expression" where
  "execute execute_update self = self\<lparr> session := execute_update (session self) self \<rparr>"

section \<open>Calls as data\<close>

text \<open>
  The ten modifier methods as a datatype, so that a statement can range over every call;
  \<open>invoke\<close> dispatches a call to its method.
\<close>

datatype call =
    Set qfield pyval
  | Unset qfield
  | Inc qfield pyval
  | Append qfield pyval
  | Extend qfield "pyval list"
  | Remove qfield pyval
  | Remove_all qfield "pyval list"
  | Add_to_set qfield pyval
  | Pop_last qfield
  | Pop_first qfield

fun invoke :: "call \<Rightarrow> 's update_expression \<Rightarrow> 's outcome" where
  "invoke (Set qf v) self = set_ue qf v self"
| "invoke (Unset qf) self = unset qf self"
| "invoke (Inc qf v) self = inc_ue qf v self"
| "invoke (Append qf v) self = append_ue qf v self"
| "invoke (Extend qf vs) self = extend_ue qf vs self"
| "invoke (Remove qf v) self = remove_ue qf v self"
| "invoke (Remove_all qf vs) self = remove_all qf vs self"
| "invoke (Add_to_set qf v) self = add_to_set qf v self"
| "invoke (Pop_last qf) self = pop_last qf self"
| "invoke (Pop_first qf) self = pop_first qf self"

text \<open>The modifier a method passes down, and the field it is called on.\<close>

fun modifier_of :: "call \<Rightarrow> string" where
  "modifier_of (Set qf v) = ''$set''"
| "modifier_of (Unset qf) = ''$unset''"
| "modifier_of (Inc qf v) = ''$inc''"
| "modifier_of (Append qf v) = ''$push''"
| "modifier_of (Extend qf vs) = ''$pushAll''"
| "modifier_of (Remove qf v) = ''$pull''"
| "modifier_of (Remove_all qf vs) = ''$pullAll''"
| "modifier_of (Add_to_set qf v) = ''$addToSet''"
| "modifier_of (Pop_last qf) = ''$pop''"
| "modifier_of (Pop_first qf) = ''$pop''"

fun target_of :: "call \<Rightarrow> qfield" where
  "target_of (Set qf v) = qf"
| "target_of (Unset qf) = qf"
| "target_of (Inc qf v) = qf"
| "target_of (Append qf v) = qf"
| "target_of (Extend qf vs) = qf"
| "target_of (Remove qf v) = qf"
| "target_of (Remove_all qf vs) = qf"
| "target_of (Add_to_set qf v) = qf"
| "target_of (Pop_last qf) = qf"
| "target_of (Pop_first qf) = qf"

text \<open>
  The exception that the encoder calls of a method raise on its arguments, \<open>None\<close> when
  they all return: \<^verbatim>\<open>wrap\<close> for \<^verbatim>\<open>set\<close> and \<^verbatim>\<open>inc\<close>, the encoder of
  the child type for the single-value list methods, the encoder of the item type on each
  value in turn for the variadic ones, and no encoder for the rest.
\<close>

definition raised_by :: "foreign_exception + 'a \<Rightarrow> foreign_exception option" where
  "raised_by r = (case r of Inl e \<Rightarrow> Some e | Inr x \<Rightarrow> None)"

fun encoder_raises :: "call \<Rightarrow> foreign_exception option" where
  "encoder_raises (Set qf v) = raised_by (wrap (get_type qf) v)"
| "encoder_raises (Unset qf) = None"
| "encoder_raises (Inc qf v) = raised_by (wrap (get_type qf) v)"
| "encoder_raises (Append qf v) = raised_by (child_type_wrap (get_type qf) v)"
| "encoder_raises (Extend qf vs) = raised_by (wrap_each (item_type_wrap (get_type qf)) vs [])"
| "encoder_raises (Remove qf v) = raised_by (child_type_wrap (get_type qf) v)"
| "encoder_raises (Remove_all qf vs) = raised_by (wrap_each (item_type_wrap (get_type qf)) vs [])"
| "encoder_raises (Add_to_set qf v) = raised_by (child_type_wrap (get_type qf) v)"
| "encoder_raises (Pop_last qf) = None"
| "encoder_raises (Pop_first qf) = None"

text \<open>The methods that take one value and encode it.\<close>

fun single_value :: "call \<Rightarrow> bool" where
  "single_value (Set qf v) = True"
| "single_value (Inc qf v) = True"
| "single_value (Append qf v) = True"
| "single_value (Remove qf v) = True"
| "single_value (Add_to_set qf v) = True"
| "single_value c = False"

text \<open>The value stored for a field under a modifier, \<open>None\<close> when there is none.\<close>

definition entry :: "update_dict \<Rightarrow> string \<Rightarrow> string \<Rightarrow> pyval option" where
  "entry d op name = (case d op of None \<Rightarrow> None | Some entries \<Rightarrow> entries name)"

text \<open>Calls of the two flag setters, in sequence.\<close>

datatype flag_call = Upsert | Multi

fun set_flag :: "flag_call \<Rightarrow> 's update_expression \<Rightarrow> 's update_expression" where
  "set_flag Upsert self = upsert self"
| "set_flag Multi self = multi self"

fun set_flags :: "flag_call list \<Rightarrow> 's update_expression \<Rightarrow> 's update_expression" where
  "set_flags [] self = self"
| "set_flags (c # cs) self = set_flags cs (set_flag c self)"

section \<open>Two fields for concrete runs\<close>

text \<open>
  A numeric field \<^verbatim>\<open>count\<close> with the modifiers \<^verbatim>\<open>$set\<close>, \<^verbatim>\<open>$unset\<close> and
  \<^verbatim>\<open>$inc\<close>, whose encoder accepts integers and returns them as they are, and which
  has neither a child type nor an item type.
\<close>

definition int_wrap :: "pyval \<Rightarrow> foreign_exception + pyval" where
  "int_wrap v = (case v of PyInt n \<Rightarrow> Inr (PyInt n) | _ \<Rightarrow> Inl (BadValueException ''not an int''))"

definition int_field :: field_type where
  "int_field = \<lparr> class_name = ''IntField'',
                 valid_modifiers = {''$set'', ''$unset'', ''$inc''},
                 wrap = int_wrap,
                 child_type_wrap = (\<lambda>v. Inl (AttributeError ''child_type'')),
                 item_type_wrap = (\<lambda>v. Inl (AttributeError ''item_type'')) \<rparr>"

definition count_field :: qfield where
  "count_field = \<lparr> get_name = ''count'', get_type = int_field \<rparr>"

text \<open>
  A list field \<^verbatim>\<open>points\<close> whose items are tuples: the encoder of the item type turns
  a tuple into a list, the encoder of the field encodes every item of a list.
\<close>

definition tuple_wrap :: "pyval \<Rightarrow> foreign_exception + pyval" where
  "tuple_wrap v = (case v of PyTuple xs \<Rightarrow> Inr (PyList xs) | _ \<Rightarrow> Inl (BadValueException ''not a tuple''))"

definition list_wrap :: "pyval \<Rightarrow> foreign_exception + pyval" where
  "list_wrap v =
     (case v of
        PyList xs \<Rightarrow> (case wrap_each tuple_wrap xs [] of Inl e \<Rightarrow> Inl e | Inr ys \<Rightarrow> Inr (PyList ys))
      | _ \<Rightarrow> Inl (BadValueException ''not a list''))"

definition list_field :: field_type where
  "list_field = \<lparr> class_name = ''ListField'',
                  valid_modifiers = {''$set'', ''$unset'', ''$push'', ''$pushAll'', ''$pull'',
                                     ''$pullAll'', ''$addToSet'', ''$pop''},
                  wrap = list_wrap,
                  child_type_wrap = tuple_wrap,
                  item_type_wrap = tuple_wrap \<rparr>"

definition points_field :: qfield where
  "points_field = \<lparr> get_name = ''points'', get_type = list_field \<rparr>"

text \<open>A query whose session counts the updates it has been given.\<close>

definition query0 :: "nat query_expression" where
  "query0 = \<lparr> query_session = 0 \<rparr>"

definition counting_session :: "nat \<Rightarrow> nat update_expression \<Rightarrow> nat" where
  "counting_session s u = Suc s"

text \<open>An outcome with the session of its builder replaced.\<close>

fun with_session :: "'s \<Rightarrow> 's outcome \<Rightarrow> 's outcome" where
  "with_session s (Returned self) = Returned (self\<lparr> session := s \<rparr>)"
| "with_session s (Raised e self) = Raised e (self\<lparr> session := s \<rparr>)"

section \<open>Properties\<close>

subsection \<open>Auxiliary facts\<close>

lemmas example_defs = init_def query0_def count_field_def int_field_def int_wrap_def
  points_field_def list_field_def tuple_wrap_def list_wrap_def counting_session_def

lemmas method_defs = set_ue_def unset_def inc_ue_def inc_default_def append_ue_def extend_ue_def
  remove_ue_def remove_all_def add_to_set_def pop_last_def pop_first_def

lemma store_ensure_modifier:
  "store op name v (ensure_modifier op self) =
     Returned (self\<lparr> update_data := (update_data self)
        (op \<mapsto> (case update_data self op of None \<Rightarrow> Map.empty | Some entries \<Rightarrow> entries)(name \<mapsto> v)) \<rparr>)"
  by (auto simp: store_def ensure_modifier_def split: option.splits)

lemma atomic_op_invalid:
  "op \<notin> valid_modifiers (get_type qf) \<Longrightarrow>
     atomic_op op qf v self = Raised (invalid_modifier (get_type qf) op) self"
  by (simp add: atomic_op_def)

lemma atomic_list_op_invalid:
  "op \<notin> valid_modifiers (get_type qf) \<Longrightarrow>
     atomic_list_op op qf v self = Raised (invalid_modifier (get_type qf) op) self"
  by (simp add: atomic_list_op_def)

lemma atomic_generic_op_invalid:
  "op \<notin> valid_modifiers (get_type qf) \<Longrightarrow>
     atomic_generic_op op qf v self = Raised (invalid_modifier (get_type qf) op) self"
  by (simp add: atomic_generic_op_def)

lemma atomic_list_op_multivalue_invalid:
  "op \<notin> valid_modifiers (get_type qf) \<Longrightarrow>
     atomic_list_op_multivalue op qf vs self = Raised (invalid_modifier (get_type qf) op) self"
  by (simp add: atomic_list_op_multivalue_def)

lemma invoke_invalid:
  "modifier_of c \<notin> valid_modifiers (get_type (target_of c)) \<Longrightarrow>
     invoke c self = Raised (invalid_modifier (get_type (target_of c)) (modifier_of c)) self"
  by (cases c)
     (simp_all add: method_defs atomic_op_invalid atomic_list_op_invalid
        atomic_generic_op_invalid atomic_list_op_multivalue_invalid)

lemma atomic_op_valid:
  "op \<in> valid_modifiers (get_type qf) \<Longrightarrow>
     atomic_op op qf v self =
       (case wrap (get_type qf) v of
          Inl e \<Rightarrow> Raised (Propagated e) (ensure_modifier op self)
        | Inr w \<Rightarrow> Returned (self\<lparr> update_data := (update_data self)
            (op \<mapsto> (case update_data self op of None \<Rightarrow> Map.empty | Some entries \<Rightarrow> entries)
                      (get_name qf \<mapsto> w)) \<rparr>))"
  by (simp add: atomic_op_def Let_def store_ensure_modifier split: sum.splits)

lemma atomic_list_op_valid:
  "op \<in> valid_modifiers (get_type qf) \<Longrightarrow>
     atomic_list_op op qf v self =
       (case child_type_wrap (get_type qf) v of
          Inl e \<Rightarrow> Raised (Propagated e) (ensure_modifier op self)
        | Inr w \<Rightarrow> Returned (self\<lparr> update_data := (update_data self)
            (op \<mapsto> (case update_data self op of None \<Rightarrow> Map.empty | Some entries \<Rightarrow> entries)
                      (get_name qf \<mapsto> w)) \<rparr>))"
  by (simp add: atomic_list_op_def Let_def store_ensure_modifier split: sum.splits)

lemma atomic_generic_op_valid:
  "op \<in> valid_modifiers (get_type qf) \<Longrightarrow>
     atomic_generic_op op qf v self =
       Returned (self\<lparr> update_data := (update_data self)
            (op \<mapsto> (case update_data self op of None \<Rightarrow> Map.empty | Some entries \<Rightarrow> entries)
                      (get_name qf \<mapsto> v)) \<rparr>)"
  by (simp add: atomic_generic_op_def store_ensure_modifier)

lemma atomic_list_op_multivalue_valid:
  "op \<in> valid_modifiers (get_type qf) \<Longrightarrow>
     atomic_list_op_multivalue op qf vs self =
       (case wrap_each (item_type_wrap (get_type qf)) vs [] of
          Inl e \<Rightarrow> Raised (Propagated e) self
        | Inr wrapped \<Rightarrow> Returned (self\<lparr> update_data := (update_data self)
            (op \<mapsto> (case update_data self op of None \<Rightarrow> Map.empty | Some entries \<Rightarrow> entries)
                      (get_name qf \<mapsto> PyTuple vs)) \<rparr>))"
  by (simp add: atomic_list_op_multivalue_def store_ensure_modifier split: sum.splits)

lemma invoke_valid_returns:
  "modifier_of c \<in> valid_modifiers (get_type (target_of c)) \<Longrightarrow>
     (\<exists>self'. invoke c self = Returned self') \<longleftrightarrow> encoder_raises c = None"
  by (cases c)
     (auto simp: method_defs atomic_op_valid atomic_list_op_valid atomic_generic_op_valid
        atomic_list_op_multivalue_valid raised_by_def split: sum.splits)

lemma invoke_valid_raises:
  "modifier_of c \<in> valid_modifiers (get_type (target_of c)) \<Longrightarrow> encoder_raises c = Some e \<Longrightarrow>
     \<exists>self'. invoke c self = Raised (Propagated e) self'"
  by (cases c)
     (auto simp: method_defs atomic_op_valid atomic_list_op_valid atomic_generic_op_valid
        atomic_list_op_multivalue_valid raised_by_def split: sum.splits)

subsection \<open>Validation of the modifier\<close>

text \<open>
  C3, as the code has it. A call returns exactly when its modifier is in the
  \<^verbatim>\<open>valid_modifiers\<close> of the type of its field and none of the encoder calls it
  makes raises. It raises \<^verbatim>\<open>InvalidModifierException\<close> exactly when the modifier is
  not in that set, with the message that names the class of the type and the modifier, and
  leaves the builder as it was. Membership is all that is looked at: with an empty set every
  call is rejected.
\<close>

theorem invalid_modifier_iff:
  "((\<exists>self'. invoke c self = Returned self') \<longleftrightarrow>
      modifier_of c \<in> valid_modifiers (get_type (target_of c)) \<and> encoder_raises c = None)
   \<and> ((\<exists>msg self'. invoke c self = Raised (InvalidModifierException msg) self') \<longleftrightarrow>
      modifier_of c \<notin> valid_modifiers (get_type (target_of c)))
   \<and> (modifier_of c \<notin> valid_modifiers (get_type (target_of c)) \<longrightarrow>
      invoke c self = Raised (invalid_modifier (get_type (target_of c)) (modifier_of c)) self)
   \<and> (valid_modifiers (get_type (target_of c)) = {} \<longrightarrow>
      invoke c self = Raised (invalid_modifier (get_type (target_of c)) (modifier_of c)) self)"
proof (cases "modifier_of c \<in> valid_modifiers (get_type (target_of c))")
  case True
  have no_invalid: "\<not> (\<exists>msg self'. invoke c self = Raised (InvalidModifierException msg) self')"
  proof (cases "encoder_raises c")
    case None
    with True invoke_valid_returns [of c self] show ?thesis by auto
  next
    case (Some e)
    with True invoke_valid_raises [of c e self] show ?thesis by auto
  qed
  from True no_invalid invoke_valid_returns [OF True, of self] show ?thesis by auto
next
  case False
  from invoke_invalid [OF False, of self] False show ?thesis
    by (auto simp: invalid_modifier_def)
qed

theorem invalid_modifier_iff_witness:
  "invoke (Inc points_field (PyInt 1)) (init query0) =
     Raised (InvalidModifierException ''Invalid modifier for ListField field: $inc'') (init query0)
   \<and> invoke (Unset \<lparr> get_name = ''count'', get_type = int_field\<lparr> valid_modifiers := {} \<rparr> \<rparr>) (init query0) =
     Raised (InvalidModifierException ''Invalid modifier for IntField field: $unset'') (init query0)
   \<and> (\<exists>self'. invoke (Inc count_field (PyInt 1)) (init query0) = Returned self')"
  using invalid_modifier_iff [of "Inc points_field (PyInt 1)" "init query0"]
    invalid_modifier_iff [of "Unset \<lparr> get_name = ''count'', get_type = int_field\<lparr> valid_modifiers := {} \<rparr> \<rparr>" "init query0"]
    invalid_modifier_iff [of "Inc count_field (PyInt 1)" "init query0"]
  by (simp add: invalid_modifier_def points_field_def list_field_def count_field_def int_field_def
      int_wrap_def raised_by_def)

text \<open>
  C3 as it is worded fails: \<^verbatim>\<open>$set\<close> is a valid modifier of \<^verbatim>\<open>count\<close>,
  and \<^verbatim>\<open>set(count, 'x')\<close> raises the \<^verbatim>\<open>BadValueException\<close> of the encoder.
\<close>

theorem valid_modifier_call_fails_on_bad_value:
  "''$set'' \<in> valid_modifiers (get_type count_field)
   \<and> set_ue count_field (PyStr ''x'') (init query0) =
       Raised (Propagated (BadValueException ''not an int''))
         \<lparr> query = query0, session = 0, update_data = [''$set'' \<mapsto> Map.empty],
           upsert_flag = False, multi_flag = False \<rparr>"
  by (simp add: set_ue_def atomic_op_def ensure_modifier_def store_def example_defs)

text \<open>
  C4. A call whose modifier is not in the \<^verbatim>\<open>valid_modifiers\<close> of the type of its
  field raises \<^verbatim>\<open>InvalidModifierException\<close> for that type and modifier, and the
  builder, \<^verbatim>\<open>update_data\<close> included, is afterwards what it was before. The run
  below is \<^verbatim>\<open>append(count, 1)\<close> on a new builder, \<^verbatim>\<open>count\<close> allowing
  \<^verbatim>\<open>$set\<close>, \<^verbatim>\<open>$unset\<close> and \<^verbatim>\<open>$inc\<close>: it raises and
  \<^verbatim>\<open>update_data\<close> stays empty.
\<close>

theorem invalid_call_leaves_builder:
  "modifier_of c \<notin> valid_modifiers (get_type (target_of c)) \<Longrightarrow>
     invoke c self = Raised (invalid_modifier (get_type (target_of c)) (modifier_of c)) self"
  by (rule invoke_invalid)

theorem invalid_call_leaves_builder_witness:
  "invoke (Append count_field (PyInt 1)) (init query0) =
     Raised (InvalidModifierException ''Invalid modifier for IntField field: $push'') (init query0)
   \<and> update_data (init query0) = Map.empty"
  using invalid_call_leaves_builder [of "Append count_field (PyInt 1)" "init query0"]
  by (simp add: invalid_modifier_def count_field_def int_field_def init_def)

subsection \<open>What the calls store\<close>



text \<open>
  C6. \<^verbatim>\<open>unset\<close> stores \<^verbatim>\<open>True\<close> under \<^verbatim>\<open>$unset\<close>,
  \<^verbatim>\<open>pop_last\<close> stores \<^verbatim>\<open>1\<close> and \<^verbatim>\<open>pop_first\<close> stores
  \<^verbatim>\<open>-1\<close> under \<^verbatim>\<open>$pop\<close>, on every field whose type allows the modifier.
  No encoder is applied: replacing the three encoders of the type by any others changes
  nothing in what the three calls do.
\<close>

theorem sentinels_stored_unencoded:
  "(''$unset'' \<in> valid_modifiers (get_type f) \<longrightarrow>
      (\<exists>self'. unset f self = Returned self'
         \<and> entry (update_data self') ''$unset'' (get_name f) = Some (PyBool True)))
   \<and> (''$pop'' \<in> valid_modifiers (get_type f) \<longrightarrow>
      (\<exists>self'. pop_last f self = Returned self'
         \<and> entry (update_data self') ''$pop'' (get_name f) = Some (PyInt 1))
      \<and> (\<exists>self'. pop_first f self = Returned self'
         \<and> entry (update_data self') ''$pop'' (get_name f) = Some (PyInt (- 1))))
   \<and> unset (f\<lparr> get_type := (get_type f)\<lparr> wrap := w, child_type_wrap := cw, item_type_wrap := iw \<rparr> \<rparr>) self
       = unset f self
   \<and> pop_last (f\<lparr> get_type := (get_type f)\<lparr> wrap := w, child_type_wrap := cw, item_type_wrap := iw \<rparr> \<rparr>) self
       = pop_last f self
   \<and> pop_first (f\<lparr> get_type := (get_type f)\<lparr> wrap := w, child_type_wrap := cw, item_type_wrap := iw \<rparr> \<rparr>) self
       = pop_first f self"
  by (simp add: unset_def pop_last_def pop_first_def atomic_generic_op_valid entry_def)
     (simp add: atomic_generic_op_def invalid_modifier_def)

theorem sentinels_stored_unencoded_witness:
  "unset points_field (init query0) =
     Returned \<lparr> query = query0, session = 0, update_data = [''$unset'' \<mapsto> [''points'' \<mapsto> PyBool True]],
                upsert_flag = False, multi_flag = False \<rparr>
   \<and> pop_last points_field (init query0) =
     Returned \<lparr> query = query0, session = 0, update_data = [''$pop'' \<mapsto> [''points'' \<mapsto> PyInt 1]],
                upsert_flag = False, multi_flag = False \<rparr>
   \<and> pop_first points_field (init query0) =
     Returned \<lparr> query = query0, session = 0, update_data = [''$pop'' \<mapsto> [''points'' \<mapsto> PyInt (- 1)]],
                upsert_flag = False, multi_flag = False \<rparr>"
  using sentinels_stored_unencoded [of points_field "init query0"]
  by (simp add: unset_def pop_last_def pop_first_def atomic_generic_op_def ensure_modifier_def
      store_def example_defs)

text \<open>
  C8. \<^verbatim>\<open>extend\<close> and \<^verbatim>\<open>remove_all\<close> with no value return without an
  error on a field whose type allows \<^verbatim>\<open>$pushAll\<close> (respectively
  \<^verbatim>\<open>$pullAll\<close>) and store the empty sequence for the name of the field.
\<close>

theorem variadic_zero_values:
  "(''$pushAll'' \<in> valid_modifiers (get_type f) \<longrightarrow>
      (\<exists>self'. extend_ue f [] self = Returned self'
         \<and> entry (update_data self') ''$pushAll'' (get_name f) = Some (PyTuple [])))
   \<and> (''$pullAll'' \<in> valid_modifiers (get_type f) \<longrightarrow>
      (\<exists>self'. remove_all f [] self = Returned self'
         \<and> entry (update_data self') ''$pullAll'' (get_name f) = Some (PyTuple [])))"
  by (simp add: extend_ue_def remove_all_def atomic_list_op_multivalue_valid entry_def)

theorem variadic_zero_values_witness:
  "extend_ue points_field [] (init query0) =
     Returned \<lparr> query = query0, session = 0, update_data = [''$pushAll'' \<mapsto> [''points'' \<mapsto> PyTuple []]],
                upsert_flag = False, multi_flag = False \<rparr>
   \<and> remove_all points_field [] (init query0) =
     Returned \<lparr> query = query0, session = 0, update_data = [''$pullAll'' \<mapsto> [''points'' \<mapsto> PyTuple []]],
                upsert_flag = False, multi_flag = False \<rparr>"
  using variadic_zero_values [of points_field "init query0"]
  by (simp add: extend_ue_def remove_all_def atomic_list_op_multivalue_def ensure_modifier_def
      store_def example_defs)

subsection \<open>Flags and execution\<close>

lemma set_flags_result:
  "set_flags cs self =
     self\<lparr> upsert_flag := upsert_flag self \<or> Upsert \<in> set cs,
           multi_flag := multi_flag self \<or> Multi \<in> set cs \<rparr>"
proof (induction cs arbitrary: self)
  case Nil
  show ?case by simp
next
  case (Cons c cs)
  show ?case by (cases c) (auto simp: Cons.IH upsert_def multi_def)
qed

text \<open>
  C7. A new builder has both flags false. Any sequence of \<^verbatim>\<open>upsert()\<close> and
  \<^verbatim>\<open>multi()\<close> calls returns the builder with \<^verbatim>\<open>__upsert\<close> true if
  \<^verbatim>\<open>upsert\<close> occurs in the sequence (and unchanged otherwise), likewise
  \<^verbatim>\<open>__multi\<close>, and with every other attribute, \<^verbatim>\<open>update_data\<close>
  in particular, as it was.
\<close>

theorem flags_independent:
  "get_upsert (init q) = False \<and> get_multi (init q) = False
   \<and> set_flags cs self =
       self\<lparr> upsert_flag := upsert_flag self \<or> Upsert \<in> set cs,
             multi_flag := multi_flag self \<or> Multi \<in> set cs \<rparr>
   \<and> get_upsert (set_flags cs self) = (get_upsert self \<or> Upsert \<in> set cs)
   \<and> get_multi (set_flags cs self) = (get_multi self \<or> Multi \<in> set cs)
   \<and> update_data (set_flags cs self) = update_data self"
  by (simp add: set_flags_result get_upsert_def get_multi_def init_def)

lemma ensure_modifier_session:
  "ensure_modifier op (self\<lparr> session := s \<rparr>) = (ensure_modifier op self)\<lparr> session := s \<rparr>"
  by (simp add: ensure_modifier_def)

lemma store_session:
  "store op name v (self\<lparr> session := s \<rparr>) = with_session s (store op name v self)"
  by (simp add: store_def split: option.splits)

lemma atomic_op_session:
  "atomic_op op qf v (self\<lparr> session := s \<rparr>) = with_session s (atomic_op op qf v self)"
  by (simp add: atomic_op_def Let_def ensure_modifier_session store_session split: sum.splits)

lemma atomic_list_op_session:
  "atomic_list_op op qf v (self\<lparr> session := s \<rparr>) = with_session s (atomic_list_op op qf v self)"
  by (simp add: atomic_list_op_def Let_def ensure_modifier_session store_session split: sum.splits)

lemma atomic_generic_op_session:
  "atomic_generic_op op qf v (self\<lparr> session := s \<rparr>) = with_session s (atomic_generic_op op qf v self)"
  by (simp add: atomic_generic_op_def ensure_modifier_session store_session)

lemma atomic_list_op_multivalue_session:
  "atomic_list_op_multivalue op qf vs (self\<lparr> session := s \<rparr>) =
     with_session s (atomic_list_op_multivalue op qf vs self)"
  by (simp add: atomic_list_op_multivalue_def ensure_modifier_session store_session split: sum.splits)

lemma invoke_session:
  "invoke c (self\<lparr> session := s \<rparr>) = with_session s (invoke c self)"
  by (cases c)
     (simp_all add: method_defs atomic_op_session atomic_list_op_session
        atomic_generic_op_session atomic_list_op_multivalue_session)

text \<open>
  C9, as the code has it. \<^verbatim>\<open>execute\<close> hands the builder to the session and writes
  no attribute of the builder: \<^verbatim>\<open>update_data\<close> and the two flags are afterwards
  what they were, the builder is not marked as finished, every modifier or flag call after
  \<^verbatim>\<open>execute\<close> does what it would have done before it, and \<^verbatim>\<open>execute\<close>
  can be called again.
\<close>

theorem execute_leaves_builder_open:
  "update_data (execute xu self) = update_data self
   \<and> get_upsert (execute xu self) = get_upsert self
   \<and> get_multi (execute xu self) = get_multi self
   \<and> invoke c (execute xu self) = with_session (xu (session self) self) (invoke c self)
   \<and> upsert (execute xu self) = (upsert self)\<lparr> session := xu (session self) self \<rparr>
   \<and> multi (execute xu self) = (multi self)\<lparr> session := xu (session self) self \<rparr>
   \<and> session (execute xu (execute xu self)) = xu (xu (session self) self) (execute xu self)"
  by (simp add: execute_def invoke_session get_upsert_def get_multi_def upsert_def multi_def)

text \<open>
  C9 as it is worded fails: after \<^verbatim>\<open>execute\<close> on a new builder,
  \<^verbatim>\<open>set(count, 7)\<close> returns and \<^verbatim>\<open>update_data\<close> is no longer empty; a
  second \<^verbatim>\<open>execute\<close> then reaches the session as the first did.
\<close>

theorem set_after_execute_accepted:
  "update_data (execute counting_session (init query0)) = Map.empty
   \<and> set_ue count_field (PyInt 7) (execute counting_session (init query0)) =
       Returned \<lparr> query = query0, session = 1, update_data = [''$set'' \<mapsto> [''count'' \<mapsto> PyInt 7]],
                  upsert_flag = False, multi_flag = False \<rparr>
   \<and> session (execute counting_session (builder_after
         (set_ue count_field (PyInt 7) (execute counting_session (init query0))))) = 2"
  by (simp add: execute_def set_ue_def atomic_op_def ensure_modifier_def store_def example_defs)

subsection \<open>Encoder errors\<close>

lemma entry_ensure_modifier:
  "entry (update_data (ensure_modifier op self)) op' name = entry (update_data self) op' name"
  by (auto simp: entry_def ensure_modifier_def split: option.splits)

lemma ensure_modifier_absent:
  "op \<notin> dom (update_data self) \<Longrightarrow>
     update_data (ensure_modifier op self) op = Some Map.empty \<and> ensure_modifier op self \<noteq> self"
proof -
  assume a: "op \<notin> dom (update_data self)"
  then have "update_data (ensure_modifier op self) op = Some Map.empty"
    by (simp add: ensure_modifier_def)
  moreover from a have "update_data self op = None" by auto
  ultimately show ?thesis by auto
qed

lemma single_value_raises:
  "single_value c \<Longrightarrow> modifier_of c \<in> valid_modifiers (get_type (target_of c)) \<Longrightarrow>
   encoder_raises c = Some e \<Longrightarrow>
     invoke c self = Raised (Propagated e) (ensure_modifier (modifier_of c) self)"
  by (cases c)
     (auto simp: method_defs atomic_op_valid atomic_list_op_valid raised_by_def split: sum.splits)

text \<open>
  C10. When the encoder of a single-value call (\<^verbatim>\<open>set\<close>, \<^verbatim>\<open>inc\<close>,
  \<^verbatim>\<open>append\<close>, \<^verbatim>\<open>remove\<close>, \<^verbatim>\<open>add_to_set\<close>) raises on a field
  whose type allows the modifier, the call raises that exception and no value is stored for
  any field under any modifier; but a modifier that was absent from
  \<^verbatim>\<open>update_data\<close> is now present with an empty dictionary, so the builder is
  not what it was before the call.
\<close>

theorem encoder_error_leaves_empty_mapping:
  assumes "single_value c"
    and "modifier_of c \<in> valid_modifiers (get_type (target_of c))"
    and "encoder_raises c = Some e"
  shows "invoke c self =
           Raised (Propagated e)
             (self\<lparr> update_data :=
                (if modifier_of c \<in> dom (update_data self) then update_data self
                 else (update_data self)(modifier_of c \<mapsto> Map.empty)) \<rparr>)
         \<and> (\<forall>op name. entry (update_data (builder_after (invoke c self))) op name
                        = entry (update_data self) op name)
         \<and> (modifier_of c \<notin> dom (update_data self) \<longrightarrow>
              update_data (builder_after (invoke c self)) (modifier_of c) = Some Map.empty
              \<and> builder_after (invoke c self) \<noteq> self)"
proof -
  have r: "invoke c self = Raised (Propagated e) (ensure_modifier (modifier_of c) self)"
    using assms by (rule single_value_raises)
  have "ensure_modifier (modifier_of c) self =
          self\<lparr> update_data :=
                (if modifier_of c \<in> dom (update_data self) then update_data self
                 else (update_data self)(modifier_of c \<mapsto> Map.empty)) \<rparr>"
    by (simp add: ensure_modifier_def)
  with r show ?thesis
    using entry_ensure_modifier [of "modifier_of c" self] ensure_modifier_absent [of "modifier_of c" self]
    by simp
qed

theorem encoder_error_leaves_empty_mapping_witness:
  "single_value (Append points_field (PyInt 3))
   \<and> encoder_raises (Append points_field (PyInt 3)) = Some (BadValueException ''not a tuple'')
   \<and> invoke (Append points_field (PyInt 3)) (init query0) =
       Raised (Propagated (BadValueException ''not a tuple''))
         \<lparr> query = query0, session = 0, update_data = [''$push'' \<mapsto> Map.empty],
           upsert_flag = False, multi_flag = False \<rparr>
   \<and> update_data (init query0) = Map.empty"
  using encoder_error_leaves_empty_mapping
    [of "Append points_field (PyInt 3)" "BadValueException ''not a tuple''" "init query0"]
  by (simp add: raised_by_def example_defs)

subsection \<open>Where the module departs from what is asked of it\<close>

text \<open>
  C1 asks that a second modifier on a field that already has one be rejected with
  \<^verbatim>\<open>ConflictingModifierException\<close>. The module declares that exception and never
  raises it: \<^verbatim>\<open>set(count, 5)\<close> followed by \<^verbatim>\<open>inc(count, 1)\<close> returns, and
  \<^verbatim>\<open>count\<close> is then under both \<^verbatim>\<open>$set\<close> and \<^verbatim>\<open>$inc\<close>.
\<close>

theorem set_then_inc_not_rejected:
  "set_ue count_field (PyInt 5) (init query0) =
     Returned \<lparr> query = query0, session = 0, update_data = [''$set'' \<mapsto> [''count'' \<mapsto> PyInt 5]],
                upsert_flag = False, multi_flag = False \<rparr>
   \<and> inc_ue count_field (PyInt 1)
       \<lparr> query = query0, session = 0, update_data = [''$set'' \<mapsto> [''count'' \<mapsto> PyInt 5]],
         upsert_flag = False, multi_flag = False \<rparr> =
     Returned \<lparr> query = query0, session = 0,
                update_data = [''$set'' \<mapsto> [''count'' \<mapsto> PyInt 5], ''$inc'' \<mapsto> [''count'' \<mapsto> PyInt 1]],
                upsert_flag = False, multi_flag = False \<rparr>"
  by (simp add: set_ue_def inc_ue_def atomic_op_def ensure_modifier_def store_def example_defs)

text \<open>
  C2 asks that \<^verbatim>\<open>extend(f, a, b, c)\<close> store the three encoded values. The method
  encodes each value and then stores the tuple of its arguments as they came: on a list of
  tuples, whose items are encoded as lists, the stored value holds the tuples, while the
  encoded values are the lists. \<^verbatim>\<open>remove_all\<close> does the same.
\<close>

theorem extend_stores_raw_arguments:
  "extend_ue points_field [PyTuple [PyInt 1, PyInt 2], PyTuple [PyInt 3, PyInt 4], PyTuple [PyInt 5, PyInt 6]]
       (init query0) =
     Returned \<lparr> query = query0, session = 0,
                update_data = [''$pushAll'' \<mapsto> [''points'' \<mapsto>
                   PyTuple [PyTuple [PyInt 1, PyInt 2], PyTuple [PyInt 3, PyInt 4], PyTuple [PyInt 5, PyInt 6]]]],
                upsert_flag = False, multi_flag = False \<rparr>
   \<and> remove_all points_field [PyTuple [PyInt 1, PyInt 2], PyTuple [PyInt 3, PyInt 4], PyTuple [PyInt 5, PyInt 6]]
       (init query0) =
     Returned \<lparr> query = query0, session = 0,
                update_data = [''$pullAll'' \<mapsto> [''points'' \<mapsto>
                   PyTuple [PyTuple [PyInt 1, PyInt 2], PyTuple [PyInt 3, PyInt 4], PyTuple [PyInt 5, PyInt 6]]]],
                upsert_flag = False, multi_flag = False \<rparr>
   \<and> wrap_each (item_type_wrap (get_type points_field))
         [PyTuple [PyInt 1, PyInt 2], PyTuple [PyInt 3, PyInt 4], PyTuple [PyInt 5, PyInt 6]] [] =
       Inr [PyList [PyInt 1, PyInt 2], PyList [PyInt 3, PyInt 4], PyList [PyInt 5, PyInt 6]]"
  by (simp add: extend_ue_def remove_all_def atomic_list_op_multivalue_def ensure_modifier_def
      store_def example_defs)

end
